theory Spec2Isabelle
  imports Main "HOL-Library.Word"
begin

unbundle bit_operations_syntax

section \<open>The logger server: data model\<close>

text \<open>
  The module \<^verbatim>\<open>logger/logger_server.py\<close> is a FastAPI server with two stateful
  handlers, \<^verbatim>\<open>log_generation\<close> (POST /log) and \<^verbatim>\<open>get_logs\<close> (GET /logs), over one
  JSON log file and a directory of image files. A Python \<^verbatim>\<open>str\<close> is modelled as a
  \<open>string\<close>, one \<open>char\<close> per code point; \<^verbatim>\<open>bytes\<close> as a list of 8-bit words;
  Python's unbounded \<^verbatim>\<open>int\<close> as \<open>int\<close>.
\<close>

type_synonym byte = "8 word"

text \<open>
  The values \<^verbatim>\<open>json.load\<close> returns and \<^verbatim>\<open>json.dump\<close> accepts. The handlers never look
  inside a float, so its type is a parameter.
\<close>

datatype 'f json =
    JNull
  | JBool bool
  | JInt int
  | JFloat 'f
  | JStr string
  | JArr "'f json list"
  | JObj "(string \<times> 'f json) list"

text \<open>
  A Python exception, by class, with the text \<^verbatim>\<open>str(e)\<close> gives. Both handlers catch
  \<^verbatim>\<open>Exception\<close> and put that text into the detail of an \<^verbatim>\<open>HTTPException\<close>.
\<close>

datatype exn =
    BinasciiError string
  | ValueError string
  | IndexError string
  | OSError string
  | JSONDecodeError string
  | RecursionError string

fun str_exn :: "exn \<Rightarrow> string" where
  "str_exn (BinasciiError m) = m"
| "str_exn (ValueError m) = m"
| "str_exn (IndexError m) = m"
| "str_exn (OSError m) = m"
| "str_exn (JSONDecodeError m) = m"
| "str_exn (RecursionError m) = m"

datatype HTTPException = HTTPException (status_code: nat) (detail: string)

text \<open>
  The file system as the handlers see it.
  \<^item> \<open>log_file\<close> is what \<^verbatim>\<open>open(LOG_FILE, 'r')\<close> followed by \<^verbatim>\<open>json.load\<close> gives: the
    exception raised (file missing, unreadable or not JSON), or the array of records.
    The module creates the file holding \<^verbatim>\<open>[]\<close> at import and only ever writes a list
    to it, so a parsed content is a list.
  \<^item> \<open>files\<close> maps a path to the bytes of the binary file written there.
  \<^item> \<open>write_error p\<close> is the exception that opening \<open>p\<close> for writing raises, if any
    (missing directory, permissions); the write of an image that was opened goes
    through.
  \<^item> \<open>dump_error logs\<close> says whether \<^verbatim>\<open>json.dump(logs, f, indent=2)\<close> raises into the log
    file once that is open for writing, and so already emptied: \<^verbatim>\<open>RecursionError\<close> for
    a document nested too deeply for the encoder, \<^verbatim>\<open>OSError\<close> when the device is full.
    It gives the exception raised, together with the exception that reading the log
    file raises from then on: what is left in the file is a proper prefix of the
    text of an array, which is not JSON.
\<close>

record 'f fs =
  log_file :: "exn + 'f json list"
  files :: "string \<Rightarrow> byte list option"
  write_error :: "string \<Rightarrow> exn option"
  dump_error :: "'f json list \<Rightarrow> (exn \<times> exn) option"

section \<open>Library functions the submission handler calls\<close>

text \<open>
  These are functions of Python's standard library, not of the repository; each is
  written out as CPython computes it, so that the handler can be run on concrete input.
\<close>

subsection \<open>Strings and paths\<close>

text \<open>\<^verbatim>\<open>s.replace(old, new)\<close> for one-character \<^verbatim>\<open>old\<close> and \<^verbatim>\<open>new\<close>.\<close>

definition replace :: "char \<Rightarrow> char \<Rightarrow> string \<Rightarrow> string" where
  "replace old new s = map (\<lambda>c. if c = old then new else c) s"

text \<open>
  \<^verbatim>\<open>s.split(sep)\<close> for a one-character separator: the pieces between the separators,
  empty pieces included; \<open>cur\<close> is the piece being read.
\<close>

fun split_loop :: "char \<Rightarrow> string \<Rightarrow> string \<Rightarrow> string list" where
  "split_loop sep cur [] = [cur]"
| "split_loop sep cur (c # cs) =
     (if c = sep then cur # split_loop sep [] cs else split_loop sep (cur @ [c]) cs)"

definition split :: "char \<Rightarrow> string \<Rightarrow> string list" where
  "split sep s = split_loop sep [] s"

text \<open>\<^verbatim>\<open>xs[i]\<close> for \<open>i \<ge> 0\<close>: raises \<^verbatim>\<open>IndexError\<close> out of range.\<close>

definition getitem :: "'a list \<Rightarrow> nat \<Rightarrow> exn + 'a" where
  "getitem xs i =
     (if i < length xs then Inr (xs ! i) else Inl (IndexError ''list index out of range''))"

text \<open>
  \<^verbatim>\<open>os.path.join(a, b)\<close> of \<^verbatim>\<open>posixpath\<close>: a second component that starts with the
  separator replaces the first.
\<close>

definition os_path_join :: "string \<Rightarrow> string \<Rightarrow> string" where
  "os_path_join a b =
     (if (case b of [] \<Rightarrow> False | c # _ \<Rightarrow> c = CHR ''/'') then b
      else if a = [] \<or> last a = CHR ''/'' then a @ b
      else a @ ''/'' @ b)"

text \<open>\<^verbatim>\<open>str(n)\<close> for a non-negative integer.\<close>

fun str_nat :: "nat \<Rightarrow> string" where
  "str_nat n =
     (if n < 10 then [char_of (48 + n)]
      else str_nat (n div 10) @ [char_of (48 + n mod 10)])"

subsection \<open>Base64\<close>

definition table_b2a_base64 :: string where
  "table_b2a_base64 =
     ''ABCDEFGHIJKLMNOPQRSTUVWXYZabcdefghijklmnopqrstuvwxyz0123456789+/''"

fun index_of :: "'a \<Rightarrow> 'a list \<Rightarrow> nat option" where
  "index_of x [] = None"
| "index_of x (y # ys) = (if x = y then Some 0 else map_option Suc (index_of x ys))"

text \<open>The value of a base64 digit; \<open>None\<close> for a character outside the alphabet.\<close>

definition table_a2b_base64 :: "char \<Rightarrow> byte option" where
  "table_a2b_base64 c = map_option of_nat (index_of c table_b2a_base64)"

text \<open>
  The loop of \<^verbatim>\<open>binascii.a2b_base64\<close> (not in strict mode), which
  \<^verbatim>\<open>base64.b64decode(s)\<close> calls: characters outside the alphabet are skipped, a pad
  sequence that completes a quad ends the input, and the input must not end inside
  a quad.
\<close>

fun a2b_base64_loop :: "string \<Rightarrow> nat \<Rightarrow> byte \<Rightarrow> nat \<Rightarrow> byte list \<Rightarrow> exn + byte list" where
  "a2b_base64_loop [] quad_pos leftchar pads bin_data =
     (if quad_pos = 0 then Inr bin_data
      else if quad_pos = 1 then
        Inl (BinasciiError (''Invalid base64-encoded string: number of data characters (''
               @ str_nat (length bin_data div 3 * 4 + 1)
               @ '') cannot be 1 more than a multiple of 4''))
      else Inl (BinasciiError ''Incorrect padding''))"
| "a2b_base64_loop (this_ch # rest) quad_pos leftchar pads bin_data =
     (if this_ch = CHR ''='' then
        (if quad_pos \<ge> 2 \<and> quad_pos + (pads + 1) \<ge> 4 then Inr bin_data
         else a2b_base64_loop rest quad_pos leftchar
                (if quad_pos \<ge> 2 then pads + 1 else pads) bin_data)
      else
        (case table_a2b_base64 this_ch of
           None \<Rightarrow> a2b_base64_loop rest quad_pos leftchar pads bin_data
         | Some v \<Rightarrow>
             (if quad_pos = 0 then a2b_base64_loop rest 1 v 0 bin_data
              else if quad_pos = 1 then
                a2b_base64_loop rest 2 (v AND 0x0f) 0
                  (bin_data @ [push_bit 2 leftchar OR drop_bit 4 v])
              else if quad_pos = 2 then
                a2b_base64_loop rest 3 (v AND 0x03) 0
                  (bin_data @ [push_bit 4 leftchar OR drop_bit 2 v])
              else
                a2b_base64_loop rest 0 0 0 (bin_data @ [push_bit 6 leftchar OR v]))))"

text \<open>
  \<^verbatim>\<open>base64.b64decode(s)\<close> for a \<^verbatim>\<open>str\<close>: the string is first encoded as ASCII.
\<close>

definition b64decode :: "string \<Rightarrow> exn + byte list" where
  "b64decode s =
     (if list_all (\<lambda>c. (of_char c :: nat) < 128) s then a2b_base64_loop s 0 0 0 []
      else Inl (ValueError ''string argument should contain only ASCII characters''))"

text \<open>
  The standard base64 encoding with padding (RFC 4648, section 4; Python's
  \<^verbatim>\<open>base64.b64encode\<close>): what a client applies to the bytes of an image to obtain
  the raw base64 string it submits.
\<close>

definition b2a :: "byte \<Rightarrow> char" where
  "b2a v = table_b2a_base64 ! unat (v AND 0x3f)"

fun b64encode :: "byte list \<Rightarrow> string" where
  "b64encode [] = []"
| "b64encode [a] = [b2a (drop_bit 2 a), b2a (push_bit 4 (a AND 0x03)), CHR ''='', CHR ''='']"
| "b64encode [a, b] =
     [b2a (drop_bit 2 a), b2a (push_bit 4 (a AND 0x03) OR drop_bit 4 b),
      b2a (push_bit 2 (b AND 0x0f)), CHR ''='']"
| "b64encode (a # b # c # rest) =
     [b2a (drop_bit 2 a), b2a (push_bit 4 (a AND 0x03) OR drop_bit 4 b),
      b2a (push_bit 2 (b AND 0x0f) OR drop_bit 6 c), b2a (c AND 0x3f)] @ b64encode rest"

section \<open>Submission handler\<close>

text \<open>
  The request body after validation:
  \<^verbatim>\<open>
  class GenerationLog(BaseModel):
      timestamp: str
      designPrompt: str
      figmaDOM: Dict[str, Any]
      descriptionAPI: Optional[Dict[str, Any]] = None
      generationAPI: Optional[Dict[str, Any]] = None
      screenshots: Dict[str, Optional[str]]
  \<close>
  For \<open>screenshots\<close>, \<open>None\<close> is a missing key, \<open>Some None\<close> a key whose value is
  \<^verbatim>\<open>None\<close> (JSON null), \<open>Some (Some s)\<close> a key whose value is the string \<open>s\<close>.
\<close>

record 'f GenerationLog =
  timestamp :: string
  designPrompt :: string
  figmaDOM :: "(string \<times> 'f json) list"
  descriptionAPI :: "(string \<times> 'f json) list option"
  generationAPI :: "(string \<times> 'f json) list option"
  screenshots :: "string \<Rightarrow> string option option"

text \<open>
  The module's paths, from the directory of the script
  (\<^verbatim>\<open>SCRIPT_DIR = os.path.dirname(os.path.abspath(__file__))\<close>), which is a parameter.
\<close>

definition LOGGER_DIR :: "string \<Rightarrow> string" where
  "LOGGER_DIR script_dir = os_path_join (os_path_join script_dir ''..'') ''logger_data''"

definition MEDIA_DIR :: "string \<Rightarrow> string" where
  "MEDIA_DIR script_dir = os_path_join (LOGGER_DIR script_dir) ''media''"

definition LOG_FILE :: "string \<Rightarrow> string" where
  "LOG_FILE script_dir = os_path_join (LOGGER_DIR script_dir) ''generation_logs.json''"

text \<open>
  \<^verbatim>\<open>timestamp_safe = log.timestamp.replace(":", "-").replace(".", "-").replace("T", "_")[:19]\<close>
\<close>

definition timestamp_safe :: "string \<Rightarrow> string" where
  "timestamp_safe ts =
     take 19 (replace CHR ''T'' CHR ''_'' (replace CHR ''.'' CHR ''-'' (replace CHR '':'' CHR ''-'' ts)))"

text \<open>
  \<^verbatim>\<open>base64_data = s.split(",")[1] if "," in s else s\<close>
\<close>

definition base64_data :: "string \<Rightarrow> exn + string" where
  "base64_data s = (if CHR '','' \<in> set s then getitem (split CHR '','' s) 1 else Inr s)"

text \<open>
  The handler has the same block twice, once with \<^verbatim>\<open>"before"\<close> and once with
  \<^verbatim>\<open>"after"\<close>; \<open>save_screenshot\<close> is that block, with the name of the slot as a
  parameter:
  \<^verbatim>\<open>
  if log.screenshots.get("before"):
      before_path = os.path.join(MEDIA_DIR, f"{timestamp_safe}-before.png")
      base64_data = log.screenshots["before"].split(",")[1] if "," in log.screenshots["before"] else log.screenshots["before"]
      image_bytes = base64.b64decode(base64_data)
      with open(before_path, "wb") as f:
          f.write(image_bytes)
      screenshot_paths["before"] = f"media/{timestamp_safe}-before.png"
  \<close>
  The condition holds for a string that is not empty. The result is the new value of
  \<^verbatim>\<open>screenshot_paths[slot]\<close> (\<open>None\<close> as initialised) or the exception raised, with
  the file system as the block leaves it.
\<close>

definition save_screenshot ::
  "string \<Rightarrow> string \<Rightarrow> string \<Rightarrow> 'f GenerationLog \<Rightarrow> 'f fs \<Rightarrow> (exn + string option) \<times> 'f fs" where
  "save_screenshot script_dir tok slot log fs =
     (case screenshots log slot of
        Some (Some s) \<Rightarrow>
          (if s = [] then (Inr None, fs)
           else
             (let path = os_path_join (MEDIA_DIR script_dir) (tok @ ''-'' @ slot @ ''.png'') in
              case base64_data s of
                Inl e \<Rightarrow> (Inl e, fs)
              | Inr b64 \<Rightarrow>
                  (case b64decode b64 of
                     Inl e \<Rightarrow> (Inl e, fs)
                   | Inr image_bytes \<Rightarrow>
                       (case write_error fs path of
                          Some e \<Rightarrow> (Inl e, fs)
                        | None \<Rightarrow>
                            (Inr (Some (''media/'' @ tok @ ''-'' @ slot @ ''.png'')),
                             fs\<lparr>files := (files fs)(path \<mapsto> image_bytes)\<rparr>)))))
      | _ \<Rightarrow> (Inr None, fs))"

definition json_of_path :: "string option \<Rightarrow> 'f json" where
  "json_of_path p = (case p of None \<Rightarrow> JNull | Some s \<Rightarrow> JStr s)"

definition json_of_dict :: "(string \<times> 'f json) list option \<Rightarrow> 'f json" where
  "json_of_dict d = (case d of None \<Rightarrow> JNull | Some kvs \<Rightarrow> JObj kvs)"

text \<open>
  \<^verbatim>\<open>
  log_entry = {"timestamp": log.timestamp, "designPrompt": log.designPrompt,
               "figmaDOM": log.figmaDOM, "descriptionAPI": log.descriptionAPI,
               "generationAPI": log.generationAPI, "screenshots": screenshot_paths}
  \<close>
\<close>

definition log_entry :: "'f GenerationLog \<Rightarrow> string option \<Rightarrow> string option \<Rightarrow> 'f json" where
  "log_entry log before_path after_path =
     JObj [(''timestamp'', JStr (timestamp log)),
           (''designPrompt'', JStr (designPrompt log)),
           (''figmaDOM'', JObj (figmaDOM log)),
           (''descriptionAPI'', json_of_dict (descriptionAPI log)),
           (''generationAPI'', json_of_dict (generationAPI log)),
           (''screenshots'', JObj [(''before'', json_of_path before_path),
                                   (''after'', json_of_path after_path)])]"

text \<open>
  The body of the handler's \<^verbatim>\<open>try\<close>: the two screenshot blocks, then
  \<^verbatim>\<open>
  with open(LOG_FILE, 'r') as f:
      logs = json.load(f)
  logs.append(log_entry)
  with open(LOG_FILE, 'w') as f:
      json.dump(logs, f, indent=2)
  return {"status": "success", "message": "Log saved successfully",
          "logIndex": len(logs) - 1, "timestamp": log.timestamp}
  \<close>
  An exception leaves the file system as the steps before it made it; one raised by
  \<^verbatim>\<open>json.dump\<close> leaves the log file damaged, since opening it for writing has
  emptied it.
\<close>

definition log_generation_try ::
  "string \<Rightarrow> 'f fs \<Rightarrow> 'f GenerationLog \<Rightarrow> (exn + 'f json) \<times> 'f fs" where
  "log_generation_try script_dir fs log =
     (let tok = timestamp_safe (timestamp log) in
      case save_screenshot script_dir tok ''before'' log fs of
        (Inl e, fs1) \<Rightarrow> (Inl e, fs1)
      | (Inr before_path, fs1) \<Rightarrow>
          (case save_screenshot script_dir tok ''after'' log fs1 of
             (Inl e, fs2) \<Rightarrow> (Inl e, fs2)
           | (Inr after_path, fs2) \<Rightarrow>
               (case log_file fs2 of
                  Inl e \<Rightarrow> (Inl e, fs2)
                | Inr logs \<Rightarrow>
                    (let logs' = logs @ [log_entry log before_path after_path] in
                     case write_error fs2 (LOG_FILE script_dir) of
                       Some e \<Rightarrow> (Inl e, fs2)
                     | None \<Rightarrow>
                         (case dump_error fs2 logs' of
                            Some (e, damaged) \<Rightarrow> (Inl e, fs2\<lparr>log_file := Inl damaged\<rparr>)
                          | None \<Rightarrow>
                              (Inr (JObj [(''status'', JStr ''success''),
                                          (''message'', JStr ''Log saved successfully''),
                                          (''logIndex'', JInt (int (length logs') - 1)),
                                          (''timestamp'', JStr (timestamp log))]),
                               fs2\<lparr>log_file := Inr logs'\<rparr>))))))"

text \<open>
  \<^verbatim>\<open>
  @app.post("/log")
  async def log_generation(log: GenerationLog):
      try:
          ...
      except Exception as e:
          print(f"Error saving log: {e}")
          raise HTTPException(status_code=500, detail=f"Error saving log: {str(e)}")
  \<close>
  The line printed to the console is not part of the state.
\<close>

definition log_generation ::
  "string \<Rightarrow> 'f fs \<Rightarrow> 'f GenerationLog \<Rightarrow> (HTTPException + 'f json) \<times> 'f fs" where
  "log_generation script_dir fs log =
     (case log_generation_try script_dir fs log of
        (Inl e, fs') \<Rightarrow> (Inl (HTTPException 500 (''Error saving log: '' @ str_exn e)), fs')
      | (Inr response, fs') \<Rightarrow> (Inr response, fs'))"

section \<open>Listing handler\<close>

text \<open>
  Python's \<^verbatim>\<open>xs[start:]\<close>: a negative start counts from the end, and the start is then
  clamped into \<open>0 .. len(xs)\<close>.
\<close>

definition slice_from :: "'a list \<Rightarrow> int \<Rightarrow> 'a list" where
  "slice_from xs start =
     (let n = int (length xs);
          s = (if start < 0 then (if start + n < 0 then 0 else start + n)
               else (if start \<ge> n then n else start))
      in drop (nat s) xs)"

text \<open>
  \<^verbatim>\<open>
  @app.get("/logs")
  async def get_logs(limit: int = 100):
      try:
          with open(LOG_FILE, 'r') as f:
              logs = json.load(f)
          return {"total": len(logs), "logs": logs[-limit:]}
      except Exception as e:
          raise HTTPException(status_code=500, detail=f"Error reading logs: {str(e)}")
  \<close>
  The handler reads and does not write, so it returns no new state. A request without
  the query parameter is \<open>get_logs fs 100\<close>.
\<close>

definition get_logs :: "'f fs \<Rightarrow> int \<Rightarrow> HTTPException + 'f json" where
  "get_logs fs limit =
     (case log_file fs of
        Inl e \<Rightarrow> Inl (HTTPException 500 (''Error reading logs: '' @ str_exn e))
      | Inr logs \<Rightarrow>
          Inr (JObj [(''total'', JInt (int (length logs))),
                     (''logs'', JArr (slice_from logs (- limit)))]))"

section \<open>Example inputs\<close>

text \<open>A log file holding one record, and a submission without screenshots.\<close>

definition example_fs :: "unit fs" where
  "example_fs = \<lparr>log_file = Inr [JStr ''earlier record''], files = Map.empty, write_error = Map.empty,
                 dump_error = Map.empty\<rparr>"

definition example_log :: "unit GenerationLog" where
  "example_log =
     \<lparr>timestamp = ''2024-01-15T10:30:45.123Z'', designPrompt = ''a login form'',
      figmaDOM = [(''type'', JStr ''FRAME'')], descriptionAPI = None,
      generationAPI = Some [(''ok'', JBool True)], screenshots = Map.empty\<rparr>"

text \<open>
  Submissions whose \<open>before\<close> screenshot is, in turn: a data URI with a payload that
  the decoder rejects; the empty string; a string with two commas; a data URI with
  the payload \<open>QUJD\<close>, the encoding of the three bytes 65, 66, 67.
\<close>

definition malformed_log :: "unit GenerationLog" where
  "malformed_log = example_log\<lparr>screenshots := [''before'' \<mapsto> Some ''data:image/png;base64,QQ'']\<rparr>"

definition empty_before_log :: "unit GenerationLog" where
  "empty_before_log = example_log\<lparr>screenshots := [''before'' \<mapsto> Some '''', ''after'' \<mapsto> None]\<rparr>"

definition two_comma_log :: "unit GenerationLog" where
  "two_comma_log = example_log\<lparr>screenshots := [''before'' \<mapsto> Some ''x,QUJD,REVG'']\<rparr>"

definition data_uri_log :: "unit GenerationLog" where
  "data_uri_log = example_log\<lparr>screenshots := [''before'' \<mapsto> Some ''data:image/png;base64,QUJD'']\<rparr>"

text \<open>
  A payload \<open>bs\<close> submitted as \<open>before\<close> screenshot in its two forms, raw base64 and
  data URI; and a submission whose timestamp starts with a slash.
\<close>

definition raw_submission :: "byte list \<Rightarrow> unit GenerationLog" where
  "raw_submission bs = example_log\<lparr>screenshots := [''before'' \<mapsto> Some (b64encode bs)]\<rparr>"

definition data_uri_submission :: "byte list \<Rightarrow> unit GenerationLog" where
  "data_uri_submission bs =
     example_log\<lparr>screenshots := [''before'' \<mapsto> Some (''data:image/png;base64,'' @ b64encode bs)]\<rparr>"

definition absolute_timestamp_log :: "unit GenerationLog" where
  "absolute_timestamp_log =
     example_log\<lparr>timestamp := ''/tmp/x'', screenshots := [''before'' \<mapsto> Some ''QUJD'']\<rparr>"

text \<open>A submission whose \<open>before\<close> screenshot has a character that is no base64 digit.\<close>

definition stray_character_log :: "unit GenerationLog" where
  "stray_character_log = example_log\<lparr>screenshots := [''before'' \<mapsto> Some ''QUJD!'']\<rparr>"

text \<open>
  The file system of the first example in three bad states: the device is full, so
  that dumping into the emptied log file raises and leaves it empty; the log file
  cannot be opened for writing; the log file does not hold JSON.
\<close>

definition full_disk_fs :: "unit fs" where
  "full_disk_fs =
     example_fs\<lparr>dump_error :=
       (\<lambda>logs. Some (OSError ''[Errno 28] No space left on device'',
                       JSONDecodeError ''Expecting value: line 1 column 1 (char 0)''))\<rparr>"

definition read_only_fs :: "unit fs" where
  "read_only_fs =
     example_fs\<lparr>write_error :=
       (\<lambda>p. Some (OSError (''[Errno 13] Permission denied: '' @ [CHR 0x27] @ p @ [CHR 0x27])))\<rparr>"

definition corrupt_log_fs :: "unit fs" where
  "corrupt_log_fs =
     example_fs\<lparr>log_file := Inl (JSONDecodeError ''Expecting value: line 1 column 1 (char 0)'')\<rparr>"

section \<open>The payload of a screenshot string, in words\<close>

text \<open>
  The specification words the payload as: split once on the first comma and take
  everything after it if a comma exists, else use the string as it is.
  \<open>spec_payload\<close> is that wording; it is compared below with \<open>base64_data\<close>, the
  expression of the source.
\<close>

definition spec_payload :: "string \<Rightarrow> string" where
  "spec_payload s =
     (if CHR '','' \<in> set s then tl (dropWhile (\<lambda>c. c \<noteq> CHR '','') s) else s)"

text \<open>
  What the source's \<^verbatim>\<open>s.split(",")[1]\<close> selects, in the same words: the part after
  the first comma and before the second one, or up to the end of the string when
  there is no second comma.
\<close>

definition payload_segment :: "string \<Rightarrow> string" where
  "payload_segment s =
     (if CHR '','' \<in> set s
      then takeWhile (\<lambda>c. c \<noteq> CHR '','') (tl (dropWhile (\<lambda>c. c \<noteq> CHR '','') s))
      else s)"

section \<open>Properties of the listing handler\<close>

lemma slice_from_neg:
  "0 < k \<Longrightarrow> slice_from xs (- k) = drop (length xs - nat k) xs"
  by (auto simp: slice_from_def Let_def nat_diff_distrib')

lemma slice_from_zero: "slice_from xs 0 = xs"
  by (simp add: slice_from_def)

text \<open>
  Claim C1. With \<open>limit = 0\<close> the listing handler is claimed to return an empty list
  of records together with \<open>total = M\<close>. The code evaluates \<^verbatim>\<open>logs[-0:]\<close>, which is
  \<^verbatim>\<open>logs[0:]\<close>: on any readable log it returns \<^emph>\<open>all\<close> \<open>M\<close> records (with \<open>total = M\<close>),
  so for a non-empty log the returned list is not empty.
\<close>

theorem get_logs_limit_zero_returns_all:
  "get_logs (fs\<lparr>log_file := Inr logs\<rparr>) 0 =
     Inr (JObj [(''total'', JInt (int (length logs))), (''logs'', JArr logs)])"
  by (simp add: get_logs_def slice_from_zero)

text \<open>
  Claim C4. On a readable log of \<open>M\<close> records and for a positive limit \<open>N\<close>, the
  listing handler returns \<open>total = M\<close> and the suffix of the log that starts at
  position \<open>M - N\<close> (the whole log if \<open>N \<ge> M\<close>), in stored order: when \<open>M > N\<close> these are
  exactly \<open>N\<close> records, the \<open>i\<close>-th returned being record \<open>M - N + i\<close> of the log, and
  when \<open>N \<ge> M\<close> they are all \<open>M\<close> records.
\<close>

theorem get_logs_last_records:
  assumes "log_file fs = Inr logs" and "0 < N"
  shows "\<exists>window. get_logs fs N =
            Inr (JObj [(''total'', JInt (int (length logs))), (''logs'', JArr window)])
          \<and> window = drop (length logs - nat N) logs
          \<and> (N < int (length logs) \<longrightarrow>
               length window = nat N
               \<and> (\<forall>i < nat N. window ! i = logs ! (length logs - nat N + i)))
          \<and> (int (length logs) \<le> N \<longrightarrow> window = logs)"
proof -
  let ?w = "drop (length logs - nat N) logs"
  have res: "get_logs fs N =
      Inr (JObj [(''total'', JInt (int (length logs))), (''logs'', JArr ?w)])"
    using assms by (simp add: get_logs_def slice_from_neg)
  have small: "N < int (length logs) \<longrightarrow>
      length ?w = nat N \<and> (\<forall>i < nat N. ?w ! i = logs ! (length logs - nat N + i))"
    using assms(2) by auto
  have big: "int (length logs) \<le> N \<longrightarrow> ?w = logs"
    by auto
  from res small big show ?thesis by blast
qed

theorem get_logs_last_records_witness:
  "get_logs \<lparr>log_file = Inr [JInt 1, JInt 2, JInt 3 :: unit json],
             files = Map.empty, write_error = Map.empty,
                 dump_error = Map.empty\<rparr> 2 =
     Inr (JObj [(''total'', JInt 3), (''logs'', JArr [JInt 2, JInt 3])])
   \<and> get_logs \<lparr>log_file = Inr [JInt 1, JInt 2, JInt 3 :: unit json],
             files = Map.empty, write_error = Map.empty,
                 dump_error = Map.empty\<rparr> 5 =
     Inr (JObj [(''total'', JInt 3), (''logs'', JArr [JInt 1, JInt 2, JInt 3])])"
  using get_logs_last_records
          [of "\<lparr>log_file = Inr [JInt 1, JInt 2, JInt 3 :: unit json],
                 files = Map.empty, write_error = Map.empty,
                 dump_error = Map.empty\<rparr>"
              "[JInt 1, JInt 2, JInt 3]" 2]
        get_logs_last_records
          [of "\<lparr>log_file = Inr [JInt 1, JInt 2, JInt 3 :: unit json],
                 files = Map.empty, write_error = Map.empty,
                 dump_error = Map.empty\<rparr>"
              "[JInt 1, JInt 2, JInt 3]" 5]
  by simp

section \<open>Properties of the library functions\<close>

subsection \<open>Splitting at commas\<close>

lemma takeWhile_absent: "x \<notin> set s \<Longrightarrow> takeWhile (\<lambda>c. c \<noteq> x) s = s"
  by (induction s) auto

lemma split_loop_unfold:
  "split_loop sep cur s =
     (if sep \<in> set s
      then (cur @ takeWhile (\<lambda>c. c \<noteq> sep) s)
             # split_loop sep [] (tl (dropWhile (\<lambda>c. c \<noteq> sep) s))
      else [cur @ s])"
  by (induction s arbitrary: cur) auto

lemma split_loop_hd:
  "\<exists>ps. split_loop sep cur s = (cur @ takeWhile (\<lambda>c. c \<noteq> sep) s) # ps"
proof (cases "sep \<in> set s")
  case True
  then show ?thesis using split_loop_unfold [of sep cur s] by simp
next
  case False
  then show ?thesis using split_loop_unfold [of sep cur s] by (simp add: takeWhile_absent)
qed

lemma count_one_rest:
  "count_list s x = 1 \<Longrightarrow> x \<notin> set (tl (dropWhile (\<lambda>c. c \<noteq> x) s))"
proof (induction s)
  case Nil
  then show ?case by simp
next
  case (Cons c s)
  show ?case
  proof (cases "c = x")
    case True
    with Cons.prems have "count_list s x = 0" by simp
    then have "x \<notin> set s" by (simp add: count_list_0_iff)
    with True show ?thesis by simp
  next
    case False
    with Cons show ?thesis by simp
  qed
qed

text \<open>The source's expression always evaluates, to the segment after the first comma.\<close>

lemma base64_data_segment: "base64_data s = Inr (payload_segment s)"
proof (cases "CHR '','' \<in> set s")
  case False
  then show ?thesis by (simp add: base64_data_def payload_segment_def)
next
  case True
  let ?rest = "tl (dropWhile (\<lambda>c. c \<noteq> CHR '','') s)"
  obtain ps where ps: "split_loop CHR '','' [] ?rest = (takeWhile (\<lambda>c. c \<noteq> CHR '','') ?rest) # ps"
    using split_loop_hd [of "CHR '',''" "[]" ?rest] by auto
  have "split CHR '','' s =
      takeWhile (\<lambda>c. c \<noteq> CHR '','') s # takeWhile (\<lambda>c. c \<noteq> CHR '','') ?rest # ps"
    using True ps split_loop_unfold [of "CHR '',''" "[]" s] by (simp add: split_def)
  then show ?thesis
    using True by (simp add: base64_data_def payload_segment_def getitem_def)
qed

lemma base64_data_empty: "base64_data [] = Inr []"
  by (simp add: base64_data_def)

lemma payload_segment_one_comma:
  assumes "count_list s CHR '','' = 1"
  shows "payload_segment s = spec_payload s"
proof -
  note absent = count_one_rest [OF assms]
  show ?thesis
    unfolding payload_segment_def spec_payload_def
    using takeWhile_absent [OF absent] by presburger
qed

subsection \<open>Paths and the token\<close>

lemma os_path_join_inject:
  "os_path_join d (tok @ x) = os_path_join d (tok @ y) \<Longrightarrow> x \<noteq> [] \<Longrightarrow> y \<noteq> []
   \<Longrightarrow> hd x = hd y \<Longrightarrow> x = y"
  by (cases tok; cases x; cases y) (auto simp: os_path_join_def split: if_splits)

lemma media_dir_shape: "\<exists>d. MEDIA_DIR sd = d @ ''media''"
  by (simp add: MEDIA_DIR_def os_path_join_def)

text \<open>
  For a token that does not start with a slash, the image file of a slot is
  \<open><media-dir>/<token>-<slot>.png\<close>.
\<close>

lemma media_path_inside:
  assumes "case tok of [] \<Rightarrow> True | c # _ \<Rightarrow> c \<noteq> CHR ''/''"
  shows "os_path_join (MEDIA_DIR sd) (tok @ ''-'' @ slot @ ''.png'')
           = MEDIA_DIR sd @ ''/'' @ tok @ ''-'' @ slot @ ''.png''"
proof -
  obtain d where d: "MEDIA_DIR sd = d @ ''media''" using media_dir_shape by blast
  show ?thesis
    using assms unfolding d by (cases tok) (simp_all add: os_path_join_def)
qed

lemma media_dir_example: "MEDIA_DIR ''/srv/logger'' = ''/srv/logger/../logger_data/media''"
  by (simp add: MEDIA_DIR_def LOGGER_DIR_def os_path_join_def)

text \<open>
  The token is the timestamp with every \<open>:\<close> and \<open>.\<close> replaced by \<open>-\<close> and every \<open>T\<close>
  by \<open>_\<close>, cut to its first 19 characters.
\<close>

lemma timestamp_safe_chars:
  "timestamp_safe ts =
     take 19 (map (\<lambda>c. if c = CHR '':'' \<or> c = CHR ''.'' then CHR ''-''
                         else if c = CHR ''T'' then CHR ''_'' else c) ts)"
proof -
  have "replace CHR ''T'' CHR ''_'' (replace CHR ''.'' CHR ''-'' (replace CHR '':'' CHR ''-'' ts))
      = map (\<lambda>c. if c = CHR '':'' \<or> c = CHR ''.'' then CHR ''-''
                  else if c = CHR ''T'' then CHR ''_'' else c) ts"
    by (induction ts) (simp_all add: replace_def)
  then show ?thesis by (simp only: timestamp_safe_def)
qed

lemma timestamp_safe_example: "timestamp_safe ''2024-01-15T10:30:45.123Z'' = ''2024-01-15_10-30-45''"
  by (simp add: timestamp_safe_def replace_def)

subsection \<open>Base64: decoding an encoding\<close>

lemma masks: "(0x3f :: byte) = mask 6" "(0x0f :: byte) = mask 4" "(0x03 :: byte) = mask 2"
  by (simp_all add: mask_eq_exp_minus_1)

lemma byte_eqI:
  assumes "list_all (\<lambda>n. bit a n = bit b n) [0, 1, 2, 3, 4, 5, 6, 7]"
  shows "a = (b :: byte)"
proof (rule bit_word_eqI)
  fix n assume "n < LENGTH(8)"
  then have "n \<in> set [0, 1, 2, 3, 4, 5, 6, 7]"
    by auto
  with assms show "bit a n = bit b n"
    unfolding list_all_iff by blast
qed

lemma quad_byte1:
  "push_bit 2 (drop_bit 2 a AND 0x3f) OR drop_bit 4 ((push_bit 4 (a AND 0x03) OR drop_bit 4 b) AND 0x3f) = (a :: byte)"
  unfolding masks
  by (rule byte_eqI) (auto simp: bit_simps numeral_2_eq_2 [symmetric] numeral_3_eq_3 [symmetric])

lemma quad_byte2:
  "push_bit 4 (((push_bit 4 (a AND 0x03) OR drop_bit 4 b) AND 0x3f) AND 0x0f)
     OR drop_bit 2 ((push_bit 2 (b AND 0x0f) OR drop_bit 6 c) AND 0x3f) = (b :: byte)"
  unfolding masks
  by (rule byte_eqI) (auto simp: bit_simps numeral_2_eq_2 [symmetric] numeral_3_eq_3 [symmetric])

lemma quad_byte3:
  "push_bit 6 (((push_bit 2 (b AND 0x0f) OR drop_bit 6 c) AND 0x3f) AND 0x03) OR ((c AND 0x3f) AND 0x3f) = (c :: byte)"
  unfolding masks
  by (rule byte_eqI) (auto simp: bit_simps numeral_2_eq_2 [symmetric] numeral_3_eq_3 [symmetric])

lemma tail1_byte1:
  "push_bit 2 (drop_bit 2 a AND 0x3f) OR drop_bit 4 (push_bit 4 (a AND 0x03) AND 0x3f) = (a :: byte)"
  unfolding masks
  by (rule byte_eqI) (auto simp: bit_simps numeral_2_eq_2 [symmetric] numeral_3_eq_3 [symmetric])

lemma tail2_byte2:
  "push_bit 4 (((push_bit 4 (a AND 0x03) OR drop_bit 4 b) AND 0x3f) AND 0x0f)
     OR drop_bit 2 (push_bit 2 (b AND 0x0f) AND 0x3f) = (b :: byte)"
  unfolding masks
  by (rule byte_eqI) (auto simp: bit_simps numeral_2_eq_2 [symmetric] numeral_3_eq_3 [symmetric])

lemma index_of_nth:
  "distinct xs \<Longrightarrow> i < length xs \<Longrightarrow> index_of (xs ! i) xs = Some i"
proof (induction xs arbitrary: i)
  case Nil
  then show ?case by simp
next
  case (Cons x xs)
  show ?case
  proof (cases i)
    case 0
    then show ?thesis by simp
  next
    case (Suc j)
    with Cons.prems have "xs ! j \<in> set xs" and "x \<notin> set xs" by auto
    then have "xs ! j \<noteq> x" by auto
    with Suc Cons show ?thesis by simp
  qed
qed

lemma table_distinct: "distinct table_b2a_base64"
  by (simp add: table_b2a_base64_def)

lemma table_length: "length table_b2a_base64 = 64"
  by (simp add: table_b2a_base64_def)

lemma unat_6_bits: "unat (v AND 0x3f :: byte) < 64"
proof -
  have "unat (v AND 0x3f) \<le> unat (0x3f :: byte)"
    by (rule word_and_le1 [THEN word_le_nat_alt [THEN iffD1]])
  then show ?thesis by simp
qed

lemma table_a2b_b2a: "table_a2b_base64 (b2a v) = Some (v AND 0x3f)"
  using index_of_nth [OF table_distinct, of "unat (v AND 0x3f)"] unat_6_bits [of v]
  by (simp add: table_a2b_base64_def b2a_def table_length)

lemma table_chars:
  "\<forall>c \<in> set table_b2a_base64. c \<noteq> CHR ''='' \<and> c \<noteq> CHR '','' \<and> (of_char c :: nat) < 128"
  by (simp add: table_b2a_base64_def)

lemma b2a_in_table: "b2a v \<in> set table_b2a_base64"
  using unat_6_bits [of v] by (simp add: b2a_def table_length)

lemma b2a_chars:
  "b2a v \<noteq> CHR ''=''" "b2a v \<noteq> CHR '',''" "(of_char (b2a v) :: nat) < 128"
  using table_chars b2a_in_table [of v] by auto

lemma a2b_base64_loop_quad:
  "a2b_base64_loop (b2a v1 # b2a v2 # b2a v3 # b2a v4 # rest) 0 l p out =
     a2b_base64_loop rest 0 0 0
       (out @ [push_bit 2 (v1 AND 0x3f) OR drop_bit 4 (v2 AND 0x3f),
               push_bit 4 ((v2 AND 0x3f) AND 0x0f) OR drop_bit 2 (v3 AND 0x3f),
               push_bit 6 ((v3 AND 0x3f) AND 0x03) OR (v4 AND 0x3f)])"
  by (simp add: table_a2b_b2a b2a_chars)

lemma a2b_base64_loop_tail1:
  "a2b_base64_loop [b2a v1, b2a v2, CHR ''='', CHR ''=''] 0 l p out =
     Inr (out @ [push_bit 2 (v1 AND 0x3f) OR drop_bit 4 (v2 AND 0x3f)])"
  by (simp add: table_a2b_b2a b2a_chars)

lemma a2b_base64_loop_tail2:
  "a2b_base64_loop [b2a v1, b2a v2, b2a v3, CHR ''=''] 0 l p out =
     Inr (out @ [push_bit 2 (v1 AND 0x3f) OR drop_bit 4 (v2 AND 0x3f),
                 push_bit 4 ((v2 AND 0x3f) AND 0x0f) OR drop_bit 2 (v3 AND 0x3f)])"
  by (simp add: table_a2b_b2a b2a_chars)

lemma a2b_base64_loop_b64encode:
  "a2b_base64_loop (b64encode bs) 0 l p out = Inr (out @ bs)"
proof (induction bs arbitrary: l p out rule: b64encode.induct)
  case 1
  then show ?case by simp
next
  case (2 a)
  show ?case
    by (simp only: b64encode.simps a2b_base64_loop_tail1 tail1_byte1)
next
  case (3 a b)
  show ?case
    by (simp only: b64encode.simps a2b_base64_loop_tail2 quad_byte1 tail2_byte2)
next
  case (4 a b c rest)
  have "a2b_base64_loop (b64encode (a # b # c # rest)) 0 l p out =
        a2b_base64_loop (b64encode rest) 0 0 0 (out @ [a, b, c])"
    by (simp only: b64encode.simps append.simps a2b_base64_loop_quad
          quad_byte1 quad_byte2 quad_byte3)
  then show ?case by (simp add: 4)
qed

lemma b2a_not_comma: "CHR '','' \<noteq> b2a v"
  using b2a_chars(2) [of v] by (rule not_sym)

lemma b64encode_no_comma: "CHR '','' \<notin> set (b64encode bs)"
  by (induction bs rule: b64encode.induct) (simp_all add: b2a_not_comma del: b64encode.simps(4), simp add: b2a_not_comma)

lemma b64encode_ascii: "list_all (\<lambda>c. (of_char c :: nat) < 128) (b64encode bs)"
  by (induction bs rule: b64encode.induct) (simp_all add: b2a_chars)

lemma b64encode_nonempty: "bs \<noteq> [] \<Longrightarrow> b64encode bs \<noteq> []"
  by (cases bs rule: b64encode.cases) simp_all

text \<open>The decoder returns the bytes that were encoded.\<close>

lemma b64decode_b64encode: "b64decode (b64encode bs) = Inr bs"
  using a2b_base64_loop_b64encode [of bs 0 0 "[]"]
  by (simp add: b64decode_def b64encode_ascii)

lemma payload_segment_raw: "payload_segment (b64encode bs) = b64encode bs"
  by (simp add: payload_segment_def b64encode_no_comma)

lemma payload_segment_data_uri:
  "payload_segment (''data:image/png;base64,'' @ b64encode bs) = b64encode bs"
  by (simp add: payload_segment_def takeWhile_absent [OF b64encode_no_comma])

subsection \<open>Base64: the decoder on some strings\<close>

lemma b64decode_empty: "b64decode [] = Inr []"
  by (simp add: b64decode_def)

lemma b64encode_ABC: "b64encode [65, 66, 67] = ''QUJD''"
  by (simp add: b2a_def table_b2a_base64_def)

lemma b64decode_QUJD: "b64decode ''QUJD'' = Inr [65, 66, 67]"
  by (simp add: b64decode_def table_a2b_base64_def table_b2a_base64_def)

text \<open>A character outside the alphabet is skipped, not rejected.\<close>

lemma b64decode_QUJD_REVG: "b64decode ''QUJD,REVG'' = Inr [65, 66, 67, 68, 69, 70]"
  by (simp add: b64decode_def table_a2b_base64_def table_b2a_base64_def)

lemma b64decode_stray_character: "b64decode ''QUJD!'' = Inr [65, 66, 67]"
  by (simp add: b64decode_def table_a2b_base64_def table_b2a_base64_def)

section \<open>Properties of the submission handler\<close>

subsection \<open>The block that saves one screenshot\<close>

lemma save_screenshot_skip:
  "screenshots log slot = None \<or> screenshots log slot = Some None
     \<or> screenshots log slot = Some (Some [])
   \<Longrightarrow> save_screenshot sd tok slot log fs = (Inr None, fs)"
  by (auto simp: save_screenshot_def)

lemma save_screenshot_log_file:
  "log_file (snd (save_screenshot sd tok slot log fs)) = log_file fs"
  by (simp add: save_screenshot_def Let_def split: option.splits sum.splits)

lemma save_screenshot_write_error:
  "write_error (snd (save_screenshot sd tok slot log fs)) = write_error fs"
  by (simp add: save_screenshot_def Let_def split: option.splits sum.splits)

lemma save_screenshot_dump_error:
  "dump_error (snd (save_screenshot sd tok slot log fs)) = dump_error fs"
  by (simp add: save_screenshot_def Let_def split: option.splits sum.splits)

lemma save_screenshot_files_other:
  assumes "path \<noteq> os_path_join (MEDIA_DIR sd) (tok @ ''-'' @ slot @ ''.png'')"
  shows "files (snd (save_screenshot sd tok slot log fs)) path = files fs path"
  using assms
  by (simp add: save_screenshot_def Let_def split: option.splits sum.splits)

lemma save_screenshot_present:
  assumes "screenshots log slot = Some (Some s)" and "s \<noteq> []"
  shows "save_screenshot sd tok slot log fs =
           (case b64decode (payload_segment s) of
              Inl e \<Rightarrow> (Inl e, fs)
            | Inr image_bytes \<Rightarrow>
                (case write_error fs (os_path_join (MEDIA_DIR sd) (tok @ ''-'' @ slot @ ''.png'')) of
                   Some e \<Rightarrow> (Inl e, fs)
                 | None \<Rightarrow>
                     (Inr (Some (''media/'' @ tok @ ''-'' @ slot @ ''.png'')),
                      fs\<lparr>files := (files fs)
                         (os_path_join (MEDIA_DIR sd) (tok @ ''-'' @ slot @ ''.png'') \<mapsto> image_bytes)\<rparr>)))"
  using assms
  by (simp add: save_screenshot_def base64_data_segment Let_def
        split: sum.splits option.splits)

lemma save_screenshot_decode_error:
  assumes "screenshots log slot = Some (Some s)"
      and "base64_data s = Inr p" and "b64decode p = Inl e"
  shows "save_screenshot sd tok slot log fs = (Inl e, fs)"
proof -
  have "s \<noteq> []"
    using assms(2,3) by (auto simp: base64_data_empty b64decode_empty)
  then show ?thesis
    using assms by (simp add: save_screenshot_def)
qed

lemma save_screenshot_encoded:
  assumes "bs \<noteq> []"
      and "screenshots log slot = Some (Some (b64encode bs))
           \<or> screenshots log slot = Some (Some (''data:image/png;base64,'' @ b64encode bs))"
  shows "save_screenshot sd tok slot log fs =
           (case write_error fs (os_path_join (MEDIA_DIR sd) (tok @ ''-'' @ slot @ ''.png'')) of
              Some e \<Rightarrow> (Inl e, fs)
            | None \<Rightarrow>
                (Inr (Some (''media/'' @ tok @ ''-'' @ slot @ ''.png'')),
                 fs\<lparr>files := (files fs)
                    (os_path_join (MEDIA_DIR sd) (tok @ ''-'' @ slot @ ''.png'') \<mapsto> bs)\<rparr>))"
  using assms(2)
proof
  assume raw: "screenshots log slot = Some (Some (b64encode bs))"
  show ?thesis
    using save_screenshot_present [OF raw b64encode_nonempty [OF assms(1)], of sd tok fs]
    by (simp only: payload_segment_raw b64decode_b64encode sum.case)
next
  assume uri: "screenshots log slot = Some (Some (''data:image/png;base64,'' @ b64encode bs))"
  have ne: "''data:image/png;base64,'' @ b64encode bs \<noteq> []" by simp
  show ?thesis
    using save_screenshot_present [OF uri ne, of sd tok fs]
    by (simp only: payload_segment_data_uri b64decode_b64encode sum.case)
qed

lemma save_screenshot_same_slot:
  assumes "screenshots log slot = Some (Some [])"
      and "v = None \<or> v = Some None"
  shows "save_screenshot sd tok k (log\<lparr>screenshots := (screenshots log)(slot := v)\<rparr>) fs
           = save_screenshot sd tok k log fs"
proof (cases "k = slot")
  case True
  then show ?thesis
    using assms by (auto simp: save_screenshot_def)
next
  case False
  then show ?thesis by (simp add: save_screenshot_def)
qed

lemma save_screenshot_files_at_skipped_slot:
  assumes "screenshots log slot = Some (Some [])"
  shows "files (snd (save_screenshot sd tok k log fs'))
           (os_path_join (MEDIA_DIR sd) (tok @ ''-'' @ slot @ ''.png''))
         = files fs' (os_path_join (MEDIA_DIR sd) (tok @ ''-'' @ slot @ ''.png''))"
proof (cases "k = slot")
  case True
  then show ?thesis using assms by (simp add: save_screenshot_def)
next
  case False
  have "os_path_join (MEDIA_DIR sd) (tok @ ''-'' @ slot @ ''.png'')
          \<noteq> os_path_join (MEDIA_DIR sd) (tok @ ''-'' @ k @ ''.png'')"
    using False os_path_join_inject [of "MEDIA_DIR sd" tok "''-'' @ slot @ ''.png''" "''-'' @ k @ ''.png''"]
    by auto
  then show ?thesis by (rule save_screenshot_files_other)
qed

subsection \<open>The handler as a whole\<close>

lemma log_generation_try_success:
  assumes "log_generation_try sd fs log = (Inr r, fs')"
  shows "\<exists>b a fs1 fs2 logs.
           save_screenshot sd (timestamp_safe (timestamp log)) ''before'' log fs = (Inr b, fs1)
         \<and> save_screenshot sd (timestamp_safe (timestamp log)) ''after'' log fs1 = (Inr a, fs2)
         \<and> log_file fs = Inr logs
         \<and> write_error fs (LOG_FILE sd) = None
         \<and> dump_error fs (logs @ [log_entry log b a]) = None
         \<and> r = JObj [(''status'', JStr ''success''),
                      (''message'', JStr ''Log saved successfully''),
                      (''logIndex'', JInt (int (length (logs @ [log_entry log b a])) - 1)),
                      (''timestamp'', JStr (timestamp log))]
         \<and> fs' = fs2\<lparr>log_file := Inr (logs @ [log_entry log b a])\<rparr>"
proof -
  let ?tok = "timestamp_safe (timestamp log)"
  obtain rb fs1 where b: "save_screenshot sd ?tok ''before'' log fs = (rb, fs1)"
    by (cases "save_screenshot sd ?tok ''before'' log fs")
  obtain ra fs2 where a: "save_screenshot sd ?tok ''after'' log fs1 = (ra, fs2)"
    by (cases "save_screenshot sd ?tok ''after'' log fs1")
  have lf1: "log_file fs1 = log_file fs" and we1: "write_error fs1 = write_error fs"
    and de1: "dump_error fs1 = dump_error fs"
    using save_screenshot_log_file [of sd ?tok "''before''" log fs]
          save_screenshot_write_error [of sd ?tok "''before''" log fs]
          save_screenshot_dump_error [of sd ?tok "''before''" log fs] b by simp_all
  have lf2: "log_file fs2 = log_file fs" and we2: "write_error fs2 = write_error fs"
    and de2: "dump_error fs2 = dump_error fs"
    using save_screenshot_log_file [of sd ?tok "''after''" log fs1]
          save_screenshot_write_error [of sd ?tok "''after''" log fs1]
          save_screenshot_dump_error [of sd ?tok "''after''" log fs1] a lf1 we1 de1
    by simp_all
  from assms b a lf2 we2 de2 show ?thesis
    by (auto simp: log_generation_try_def Let_def split: sum.splits option.splits prod.splits)
qed

lemma log_generation_success:
  assumes "log_generation sd fs log = (Inr r, fs')"
  shows "log_generation_try sd fs log = (Inr r, fs')"
  using assms by (auto simp: log_generation_def split: prod.splits sum.splits)

lemma log_generation_files:
  "files (snd (log_generation sd fs log)) =
   files (snd (save_screenshot sd (timestamp_safe (timestamp log)) ''after'' log
            (snd (save_screenshot sd (timestamp_safe (timestamp log)) ''before'' log fs))))
   \<or> files (snd (log_generation sd fs log)) =
   files (snd (save_screenshot sd (timestamp_safe (timestamp log)) ''before'' log fs))"
  by (auto simp: log_generation_def log_generation_try_def Let_def
        split: prod.splits sum.splits option.splits)

lemma log_entry_screenshots_update:
  "log_entry (log\<lparr>screenshots := sc\<rparr>) b a = log_entry log b a"
  by (simp add: log_entry_def)

lemma log_generation_cong:
  assumes "\<And>k tok fs'. save_screenshot sd tok k (log\<lparr>screenshots := sc\<rparr>) fs'
                         = save_screenshot sd tok k (log\<lparr>screenshots := sc'\<rparr>) fs'"
  shows "log_generation sd fs (log\<lparr>screenshots := sc\<rparr>)
           = log_generation sd fs (log\<lparr>screenshots := sc'\<rparr>)"
  by (simp add: log_generation_def log_generation_try_def Let_def assms
        log_entry_screenshots_update
      cong: prod.case_cong sum.case_cong option.case_cong)

lemma log_generation_same_slot:
  assumes "screenshots log slot = Some (Some [])"
      and "v = None \<or> v = Some None"
  shows "log_generation sd fs (log\<lparr>screenshots := (screenshots log)(slot := v)\<rparr>)
           = log_generation sd fs log"
  by (simp add: log_generation_def log_generation_try_def Let_def
        save_screenshot_same_slot [OF assms] log_entry_screenshots_update
      cong: prod.case_cong sum.case_cong option.case_cong)

subsection \<open>Runs on the example inputs\<close>

lemma example_fs_fields:
  "log_file example_fs = Inr [JStr ''earlier record'']"
  "write_error example_fs p = None"
  "files example_fs p = None"
  "dump_error example_fs l = None"
  by (simp_all add: example_fs_def)

lemma two_comma_run:
  "files (snd (log_generation ''/srv/logger'' example_fs two_comma_log))
        ''/srv/logger/../logger_data/media/2024-01-15_10-30-45-before.png'' = Some [65, 66, 67]"
proof -
  have tok: "timestamp_safe (timestamp two_comma_log) = ''2024-01-15_10-30-45''"
    by (simp add: two_comma_log_def example_log_def timestamp_safe_def replace_def)
  have seg: "payload_segment ''x,QUJD,REVG'' = ''QUJD''"
    by (simp add: payload_segment_def)
  have path: "os_path_join (MEDIA_DIR ''/srv/logger'') (''2024-01-15_10-30-45'' @ ''-'' @ ''before'' @ ''.png'')
      = ''/srv/logger/../logger_data/media/2024-01-15_10-30-45-before.png''"
    by (simp add: MEDIA_DIR_def LOGGER_DIR_def os_path_join_def)
  have b: "save_screenshot ''/srv/logger'' ''2024-01-15_10-30-45'' ''before'' two_comma_log example_fs =
       (Inr (Some ''media/2024-01-15_10-30-45-before.png''),
        example_fs\<lparr>files := (files example_fs)
           (''/srv/logger/../logger_data/media/2024-01-15_10-30-45-before.png'' \<mapsto> [65, 66, 67])\<rparr>)"
    using save_screenshot_present [of two_comma_log "''before''" "''x,QUJD,REVG''"
             "''/srv/logger''" "''2024-01-15_10-30-45''" example_fs]
    unfolding seg path b64decode_QUJD
    by (simp add: two_comma_log_def example_fs_def)
  have a: "save_screenshot ''/srv/logger'' ''2024-01-15_10-30-45'' ''after'' two_comma_log fs' = (Inr None, fs')" for fs'
    by (simp add: save_screenshot_def two_comma_log_def)
  show ?thesis
    by (simp add: log_generation_def log_generation_try_def Let_def tok a b example_fs_fields)
qed

lemma stray_character_run:
  "log_generation ''/srv/logger'' example_fs stray_character_log =
     (Inr (JObj [(''status'', JStr ''success''),
                 (''message'', JStr ''Log saved successfully''),
                 (''logIndex'', JInt 1),
                 (''timestamp'', JStr ''2024-01-15T10:30:45.123Z'')]),
      example_fs\<lparr>files := (files example_fs)
                   (''/srv/logger/../logger_data/media/2024-01-15_10-30-45-before.png''
                      \<mapsto> [65, 66, 67]),
                 log_file := Inr [JStr ''earlier record'',
                    log_entry stray_character_log
                      (Some ''media/2024-01-15_10-30-45-before.png'') None]\<rparr>)"
proof -
  have ts: "timestamp stray_character_log = ''2024-01-15T10:30:45.123Z''"
    by (simp add: stray_character_log_def example_log_def)
  have path: "os_path_join ''/srv/logger/../logger_data/media''
                (''2024-01-15_10-30-45'' @ ''-'' @ ''before'' @ ''.png'')
      = ''/srv/logger/../logger_data/media/2024-01-15_10-30-45-before.png''"
    by (simp add: os_path_join_def)
  have seg: "payload_segment ''QUJD!'' = ''QUJD!''"
    by (simp add: payload_segment_def)
  have b: "save_screenshot ''/srv/logger'' ''2024-01-15_10-30-45'' ''before''
             stray_character_log example_fs =
       (Inr (Some ''media/2024-01-15_10-30-45-before.png''),
        example_fs\<lparr>files := (files example_fs)
           (''/srv/logger/../logger_data/media/2024-01-15_10-30-45-before.png''
              \<mapsto> [65, 66, 67])\<rparr>)"
    using save_screenshot_present [of stray_character_log "''before''" "''QUJD!''"
             "''/srv/logger''" "''2024-01-15_10-30-45''" example_fs]
    unfolding seg media_dir_example path b64decode_stray_character
    by (simp add: stray_character_log_def example_fs_fields)
  have a: "save_screenshot ''/srv/logger'' ''2024-01-15_10-30-45'' ''after''
             stray_character_log fs' = (Inr None, fs')" for fs'
    by (simp add: save_screenshot_def stray_character_log_def)
  show ?thesis
    by (simp add: log_generation_def log_generation_try_def Let_def ts timestamp_safe_example
          a b example_fs_fields)
qed

lemma empty_payload_raw_run:
  "files (snd (log_generation ''/srv/logger'' example_fs (raw_submission [])))
     ''/srv/logger/../logger_data/media/2024-01-15_10-30-45-before.png'' = None"
  by (simp add: log_generation_def log_generation_try_def save_screenshot_def
        raw_submission_def example_log_def example_fs_def)

lemma empty_payload_data_uri_run:
  "files (snd (log_generation ''/srv/logger'' example_fs (data_uri_submission [])))
     ''/srv/logger/../logger_data/media/2024-01-15_10-30-45-before.png'' = Some []"
proof -
  have tok: "timestamp_safe (timestamp (data_uri_submission [])) = ''2024-01-15_10-30-45''"
    by (simp add: data_uri_submission_def example_log_def timestamp_safe_example)
  have path: "os_path_join ''/srv/logger/../logger_data/media''
                (''2024-01-15_10-30-45'' @ ''-'' @ ''before'' @ ''.png'')
      = ''/srv/logger/../logger_data/media/2024-01-15_10-30-45-before.png''"
    by (simp add: os_path_join_def)
  have seg: "payload_segment ''data:image/png;base64,'' = []"
    by (simp add: payload_segment_def)
  have b: "save_screenshot ''/srv/logger'' ''2024-01-15_10-30-45'' ''before''
             (data_uri_submission []) example_fs =
       (Inr (Some ''media/2024-01-15_10-30-45-before.png''),
        example_fs\<lparr>files := (files example_fs)
           (''/srv/logger/../logger_data/media/2024-01-15_10-30-45-before.png'' \<mapsto> [])\<rparr>)"
    using save_screenshot_present [of "data_uri_submission []" "''before''" "''data:image/png;base64,''"
             "''/srv/logger''" "''2024-01-15_10-30-45''" example_fs]
    unfolding seg media_dir_example path b64decode_empty
    by (simp add: data_uri_submission_def example_fs_fields)
  have a: "save_screenshot ''/srv/logger'' ''2024-01-15_10-30-45'' ''after''
             (data_uri_submission []) fs' = (Inr None, fs')" for fs'
    by (simp add: save_screenshot_def data_uri_submission_def)
  show ?thesis
    by (simp add: log_generation_def log_generation_try_def Let_def tok a b example_fs_fields)
qed

lemma absolute_run:
  "log_generation ''/srv/logger'' example_fs absolute_timestamp_log =
     (Inr (JObj [(''status'', JStr ''success''),
                 (''message'', JStr ''Log saved successfully''),
                 (''logIndex'', JInt 1),
                 (''timestamp'', JStr ''/tmp/x'')]),
      example_fs\<lparr>files := (files example_fs)(''/tmp/x-before.png'' \<mapsto> [65, 66, 67]),
                 log_file := Inr [JStr ''earlier record'',
                    log_entry absolute_timestamp_log (Some ''media//tmp/x-before.png'') None]\<rparr>)"
proof -
  have tok: "timestamp_safe ''/tmp/x'' = ''/tmp/x''"
    by (simp add: timestamp_safe_def replace_def)
  have path: "os_path_join ''/srv/logger/../logger_data/media''
                (''/tmp/x'' @ ''-'' @ ''before'' @ ''.png'') = ''/tmp/x-before.png''"
    by (simp add: os_path_join_def)
  have seg: "payload_segment ''QUJD'' = ''QUJD''"
    by (simp add: payload_segment_def)
  have b: "save_screenshot ''/srv/logger'' ''/tmp/x'' ''before'' absolute_timestamp_log example_fs =
       (Inr (Some ''media//tmp/x-before.png''),
        example_fs\<lparr>files := (files example_fs)(''/tmp/x-before.png'' \<mapsto> [65, 66, 67])\<rparr>)"
    using save_screenshot_present [of absolute_timestamp_log "''before''" "''QUJD''"
             "''/srv/logger''" "''/tmp/x''" example_fs]
    unfolding seg media_dir_example path b64decode_QUJD
    by (simp add: absolute_timestamp_log_def example_fs_fields)
  have a: "save_screenshot ''/srv/logger'' ''/tmp/x'' ''after'' absolute_timestamp_log fs'
             = (Inr None, fs')" for fs'
    by (simp add: save_screenshot_def absolute_timestamp_log_def)
  have ts: "timestamp absolute_timestamp_log = ''/tmp/x''"
    by (simp add: absolute_timestamp_log_def)
  show ?thesis
    by (simp add: log_generation_def log_generation_try_def Let_def tok a b example_fs_fields ts)
qed

subsection \<open>The payload that is decoded and written\<close>

text \<open>
  Claim C2, as stated, says that for every present non-null screenshot string the
  payload decoded and written is everything after the first comma (the whole string
  if there is no comma). It fails on the code in two places. For the string
  \<open>x,QUJD,REVG\<close> everything after the first comma is \<open>QUJD,REVG\<close>, which decodes to
  six bytes, but the handler decodes \<open>QUJD\<close> and writes three bytes. For the empty
  string, which has no comma and decodes to no bytes, the handler decodes and writes
  nothing at all.
\<close>

theorem payload_after_first_comma_counterexample:
  "screenshots two_comma_log ''before'' = Some (Some ''x,QUJD,REVG'')
   \<and> spec_payload ''x,QUJD,REVG'' = ''QUJD,REVG''
   \<and> b64decode ''QUJD,REVG'' = Inr [65, 66, 67, 68, 69, 70]
   \<and> base64_data ''x,QUJD,REVG'' = Inr ''QUJD''
   \<and> files (snd (log_generation ''/srv/logger'' example_fs two_comma_log))
        ''/srv/logger/../logger_data/media/2024-01-15_10-30-45-before.png'' = Some [65, 66, 67]
   \<and> screenshots empty_before_log ''before'' = Some (Some [])
   \<and> b64decode (spec_payload []) = Inr []
   \<and> files (snd (log_generation ''/srv/logger'' example_fs empty_before_log))
        ''/srv/logger/../logger_data/media/2024-01-15_10-30-45-before.png'' = None"
proof -
  have "base64_data ''x,QUJD,REVG'' = Inr ''QUJD''"
    by (simp add: base64_data_segment payload_segment_def)
  moreover have "spec_payload ''x,QUJD,REVG'' = ''QUJD,REVG''"
    by (simp add: spec_payload_def)
  moreover have "screenshots two_comma_log ''before'' = Some (Some ''x,QUJD,REVG'')"
    by (simp add: two_comma_log_def)
  moreover have "screenshots empty_before_log ''before'' = Some (Some [])"
    by (simp add: empty_before_log_def)
  moreover have "b64decode (spec_payload []) = Inr []"
    by (simp add: spec_payload_def b64decode_def)
  moreover have "files (snd (log_generation ''/srv/logger'' example_fs empty_before_log))
        ''/srv/logger/../logger_data/media/2024-01-15_10-30-45-before.png'' = None"
    by (simp add: log_generation_def log_generation_try_def save_screenshot_def
          empty_before_log_def example_log_def example_fs_def)
  ultimately show ?thesis
    using b64decode_QUJD_REVG two_comma_run by simp
qed

text \<open>
  Claim C2, amended. For every present screenshot string that is not empty, the
  base64 payload that is decoded and written (to the image file of the slot) is the
  part of the string after its first comma and before its second comma, or up to
  the end of the string when there is no second comma; for a string with exactly
  one comma this is everything after that comma. If the string contains no comma,
  the whole string is decoded.
\<close>

theorem payload_is_segment_after_first_comma:
  assumes "screenshots log slot = Some (Some s)" and "s \<noteq> []"
  shows "base64_data s = Inr (payload_segment s)
       \<and> save_screenshot sd tok slot log fs =
           (case b64decode (payload_segment s) of
              Inl e \<Rightarrow> (Inl e, fs)
            | Inr image_bytes \<Rightarrow>
                (case write_error fs (os_path_join (MEDIA_DIR sd) (tok @ ''-'' @ slot @ ''.png'')) of
                   Some e \<Rightarrow> (Inl e, fs)
                 | None \<Rightarrow>
                     (Inr (Some (''media/'' @ tok @ ''-'' @ slot @ ''.png'')),
                      fs\<lparr>files := (files fs)
                         (os_path_join (MEDIA_DIR sd) (tok @ ''-'' @ slot @ ''.png'') \<mapsto> image_bytes)\<rparr>)))
       \<and> (count_list s CHR '','' = 1 \<longrightarrow> payload_segment s = spec_payload s)
       \<and> (CHR '','' \<notin> set s \<longrightarrow> payload_segment s = s)"
proof (intro conjI impI)
  show "base64_data s = Inr (payload_segment s)" by (rule base64_data_segment)
  show "save_screenshot sd tok slot log fs =
           (case b64decode (payload_segment s) of
              Inl e \<Rightarrow> (Inl e, fs)
            | Inr image_bytes \<Rightarrow>
                (case write_error fs (os_path_join (MEDIA_DIR sd) (tok @ ''-'' @ slot @ ''.png'')) of
                   Some e \<Rightarrow> (Inl e, fs)
                 | None \<Rightarrow>
                     (Inr (Some (''media/'' @ tok @ ''-'' @ slot @ ''.png'')),
                      fs\<lparr>files := (files fs)
                         (os_path_join (MEDIA_DIR sd) (tok @ ''-'' @ slot @ ''.png'') \<mapsto> image_bytes)\<rparr>)))"
    using assms by (rule save_screenshot_present)
  show "payload_segment s = spec_payload s" if "count_list s CHR '','' = 1"
    using that by (rule payload_segment_one_comma)
  show "payload_segment s = s" if "CHR '','' \<notin> set s"
    using that by (simp add: payload_segment_def)
qed

theorem payload_is_segment_after_first_comma_witness:
  "screenshots data_uri_log ''before'' = Some (Some ''data:image/png;base64,QUJD'')
   \<and> ''data:image/png;base64,QUJD'' \<noteq> []
   \<and> count_list ''data:image/png;base64,QUJD'' CHR '','' = 1
   \<and> base64_data ''data:image/png;base64,QUJD'' = Inr ''QUJD''
   \<and> spec_payload ''data:image/png;base64,QUJD'' = ''QUJD''
   \<and> save_screenshot ''/srv/logger'' ''2024-01-15_10-30-45'' ''before'' data_uri_log example_fs =
       (Inr (Some ''media/2024-01-15_10-30-45-before.png''),
        example_fs\<lparr>files := (files example_fs)
           (''/srv/logger/../logger_data/media/2024-01-15_10-30-45-before.png'' \<mapsto> [65, 66, 67])\<rparr>)"
proof -
  have h1: "screenshots data_uri_log ''before'' = Some (Some ''data:image/png;base64,QUJD'')"
    by (simp add: data_uri_log_def)
  have h2: "''data:image/png;base64,QUJD'' \<noteq> []"
    by simp
  have one: "count_list ''data:image/png;base64,QUJD'' CHR '','' = 1"
    by simp
  have seg: "payload_segment ''data:image/png;base64,QUJD'' = ''QUJD''"
    by (simp add: payload_segment_def)
  have sp: "spec_payload ''data:image/png;base64,QUJD'' = ''QUJD''"
    by (simp add: spec_payload_def)
  have path: "os_path_join (MEDIA_DIR ''/srv/logger'') (''2024-01-15_10-30-45'' @ ''-'' @ ''before'' @ ''.png'')
      = ''/srv/logger/../logger_data/media/2024-01-15_10-30-45-before.png''"
    by (simp add: MEDIA_DIR_def LOGGER_DIR_def os_path_join_def)
  have we: "write_error example_fs ''/srv/logger/../logger_data/media/2024-01-15_10-30-45-before.png'' = None"
    by (simp add: example_fs_def)
  from payload_is_segment_after_first_comma
         [OF h1 h2, of "''/srv/logger''" "''2024-01-15_10-30-45''" example_fs]
  show ?thesis
    unfolding seg path b64decode_QUJD using h1 one sp we by simp
qed

subsection \<open>A screenshot that does not decode\<close>

text \<open>
  Claim C3, as stated, is about every malformed base64 string in
  \<open>screenshots.before\<close>. The decoder the handler calls is lenient: it skips
  characters outside the base64 alphabet instead of rejecting them. The string
  \<open>QUJD!\<close>, five characters of which \<open>!\<close> is no base64 digit, is decoded as \<open>QUJD\<close>:
  the handler succeeds, writes the image and appends a record.
\<close>

theorem malformed_before_counterexample:
  "screenshots stray_character_log ''before'' = Some (Some ''QUJD!'')
   \<and> CHR ''!'' \<notin> set table_b2a_base64
   \<and> length ''QUJD!'' mod 4 = 1
   \<and> b64decode ''QUJD!'' = Inr [65, 66, 67]
   \<and> fst (log_generation ''/srv/logger'' example_fs stray_character_log) =
        Inr (JObj [(''status'', JStr ''success''),
                   (''message'', JStr ''Log saved successfully''),
                   (''logIndex'', JInt 1),
                   (''timestamp'', JStr ''2024-01-15T10:30:45.123Z'')])
   \<and> log_file example_fs = Inr [JStr ''earlier record'']
   \<and> log_file (snd (log_generation ''/srv/logger'' example_fs stray_character_log)) =
        Inr [JStr ''earlier record'',
             log_entry stray_character_log (Some ''media/2024-01-15_10-30-45-before.png'') None]"
proof -
  have "screenshots stray_character_log ''before'' = Some (Some ''QUJD!'')"
    by (simp add: stray_character_log_def)
  moreover have "CHR ''!'' \<notin> set table_b2a_base64"
    by (simp add: table_b2a_base64_def)
  ultimately show ?thesis
    by (simp add: stray_character_run b64decode_stray_character example_fs_fields)
qed

text \<open>
  Claim C3, amended. When \<open>screenshots.before\<close> is a string whose base64 payload
  the decoder rejects (\<^verbatim>\<open>base64.b64decode\<close> raises), the submission handler raises
  an HTTP error with status 500 whose detail is \<open>Error saving log: \<close> followed by the
  decoder's message, and it leaves the file system as it was: the log file is
  unchanged, so no record is appended, and no image file has been written.
\<close>

theorem malformed_before_rejected:
  assumes "screenshots log ''before'' = Some (Some s)"
      and "base64_data s = Inr p"
      and "b64decode p = Inl e"
  shows "log_generation sd fs log =
           (Inl (HTTPException 500 (''Error saving log: '' @ str_exn e)), fs)
         \<and> log_file (snd (log_generation sd fs log)) = log_file fs
         \<and> files (snd (log_generation sd fs log)) = files fs"
  using save_screenshot_decode_error [OF assms]
  by (simp add: log_generation_def log_generation_try_def)

theorem malformed_before_rejected_witness:
  "screenshots malformed_log ''before'' = Some (Some ''data:image/png;base64,QQ'')
   \<and> base64_data ''data:image/png;base64,QQ'' = Inr ''QQ''
   \<and> b64decode ''QQ'' = Inl (BinasciiError ''Incorrect padding'')
   \<and> log_generation ''/srv/logger'' example_fs malformed_log =
        (Inl (HTTPException 500 ''Error saving log: Incorrect padding''), example_fs)
   \<and> log_file (snd (log_generation ''/srv/logger'' example_fs malformed_log)) =
        Inr [JStr ''earlier record'']"
proof -
  have h1: "screenshots malformed_log ''before'' = Some (Some ''data:image/png;base64,QQ'')"
    by (simp add: malformed_log_def)
  have h2: "base64_data ''data:image/png;base64,QQ'' = Inr ''QQ''"
    by (simp add: base64_data_def split_def getitem_def)
  have h3: "b64decode ''QQ'' = Inl (BinasciiError ''Incorrect padding'')"
    by (simp add: b64decode_def table_a2b_base64_def table_b2a_base64_def)
  from h1 h2 h3 malformed_before_rejected [OF h1 h2 h3, of "''/srv/logger''" example_fs]
  show ?thesis by (simp add: example_fs_def)
qed

subsection \<open>Submissions without screenshots\<close>

text \<open>
  Claim C5, as stated, is about every valid submission without screenshots. It
  fails where the log file cannot be rewritten or read. On a full device
  \<^verbatim>\<open>json.dump\<close> raises after the log file has been emptied: the handler answers
  HTTP 500 and the log file, which held one record, is left empty. When the log
  file cannot be opened for writing, the handler answers HTTP 500 and the log file
  still holds its one record. When the log file does not hold JSON, the handler
  answers HTTP 500 as well.
\<close>

theorem submit_without_screenshots_counterexample:
  "screenshots example_log ''before'' = None
   \<and> screenshots example_log ''after'' = None
   \<and> log_file full_disk_fs = Inr [JStr ''earlier record'']
   \<and> log_generation ''/srv/logger'' full_disk_fs example_log =
       (Inl (HTTPException 500 ''Error saving log: [Errno 28] No space left on device''),
        full_disk_fs\<lparr>log_file :=
          Inl (JSONDecodeError ''Expecting value: line 1 column 1 (char 0)'')\<rparr>)
   \<and> log_file read_only_fs = Inr [JStr ''earlier record'']
   \<and> fst (log_generation ''/srv/logger'' read_only_fs example_log) =
       Inl (HTTPException 500
         (''Error saving log: [Errno 13] Permission denied: '' @ [CHR 0x27]
            @ ''/srv/logger/../logger_data/generation_logs.json'' @ [CHR 0x27]))
   \<and> log_file (snd (log_generation ''/srv/logger'' read_only_fs example_log)) =
       Inr [JStr ''earlier record'']
   \<and> log_generation ''/srv/logger'' corrupt_log_fs example_log =
       (Inl (HTTPException 500
               ''Error saving log: Expecting value: line 1 column 1 (char 0)''),
        corrupt_log_fs)"
proof -
  have skip: "save_screenshot sd tok slot example_log fs' = (Inr None, fs')" for sd tok slot fs'
    by (simp add: save_screenshot_def example_log_def)
  have lf: "LOG_FILE ''/srv/logger'' = ''/srv/logger/../logger_data/generation_logs.json''"
    by (simp add: LOG_FILE_def LOGGER_DIR_def os_path_join_def)
  have full: "log_generation ''/srv/logger'' full_disk_fs example_log =
       (Inl (HTTPException 500 ''Error saving log: [Errno 28] No space left on device''),
        full_disk_fs\<lparr>log_file :=
          Inl (JSONDecodeError ''Expecting value: line 1 column 1 (char 0)'')\<rparr>)"
    by (simp add: log_generation_def log_generation_try_def Let_def skip full_disk_fs_def
          example_fs_fields)
  have ro: "log_generation ''/srv/logger'' read_only_fs example_log =
       (Inl (HTTPException 500
         (''Error saving log: [Errno 13] Permission denied: '' @ [CHR 0x27]
            @ ''/srv/logger/../logger_data/generation_logs.json'' @ [CHR 0x27])),
        read_only_fs)"
    by (simp add: log_generation_def log_generation_try_def Let_def skip read_only_fs_def
          example_fs_fields lf)
  have corrupt: "log_generation ''/srv/logger'' corrupt_log_fs example_log =
       (Inl (HTTPException 500
               ''Error saving log: Expecting value: line 1 column 1 (char 0)''),
        corrupt_log_fs)"
    by (simp add: log_generation_def log_generation_try_def Let_def skip corrupt_log_fs_def)
  have "screenshots example_log ''before'' = None" "screenshots example_log ''after'' = None"
    by (simp_all add: example_log_def)
  moreover have "log_file full_disk_fs = Inr [JStr ''earlier record'']"
    "log_file read_only_fs = Inr [JStr ''earlier record'']"
    by (simp_all add: full_disk_fs_def read_only_fs_def example_fs_fields)
  ultimately show ?thesis
    by (simp add: full ro corrupt)
qed

text \<open>
  Claim C5, amended. For a submission in which neither \<open>screenshots.before\<close> nor
  \<open>screenshots.after\<close> is present and non-null (each is a missing key or null), on a
  log file that holds an array of \<open>M\<close> records, can be opened for writing and into
  which the array with the new record can be dumped, the handler succeeds, the log
  file then holds \<open>M + 1\<close> records, and the record appended has
  \<open>screenshots.before\<close> and \<open>screenshots.after\<close> both null.
\<close>

theorem submit_without_screenshots:
  assumes "screenshots log ''before'' = None \<or> screenshots log ''before'' = Some None"
      and "screenshots log ''after'' = None \<or> screenshots log ''after'' = Some None"
      and "log_file fs = Inr logs"
      and "write_error fs (LOG_FILE sd) = None"
      and "dump_error fs (logs @ [log_entry log None None]) = None"
  shows "\<exists>response logs'.
           log_generation sd fs log = (Inr response, fs\<lparr>log_file := Inr logs'\<rparr>)
         \<and> length logs' = length logs + 1
         \<and> logs' = logs @
              [JObj [(''timestamp'', JStr (timestamp log)),
                     (''designPrompt'', JStr (designPrompt log)),
                     (''figmaDOM'', JObj (figmaDOM log)),
                     (''descriptionAPI'', json_of_dict (descriptionAPI log)),
                     (''generationAPI'', json_of_dict (generationAPI log)),
                     (''screenshots'', JObj [(''before'', JNull), (''after'', JNull)])]]"
proof -
  have b: "save_screenshot sd (timestamp_safe (timestamp log)) ''before'' log fs = (Inr None, fs)"
    using assms(1) by (intro save_screenshot_skip) blast
  have a: "save_screenshot sd (timestamp_safe (timestamp log)) ''after'' log fs = (Inr None, fs)"
    using assms(2) by (intro save_screenshot_skip) blast
  have run: "log_generation_try sd fs log =
      (Inr (JObj [(''status'', JStr ''success''),
                  (''message'', JStr ''Log saved successfully''),
                  (''logIndex'', JInt (int (length (logs @ [log_entry log None None])) - 1)),
                  (''timestamp'', JStr (timestamp log))]),
       fs\<lparr>log_file := Inr (logs @ [log_entry log None None])\<rparr>)"
    using assms(3,4,5) by (simp add: log_generation_try_def Let_def b a)
  show ?thesis
    by (simp add: log_generation_def run log_entry_def json_of_path_def)
qed

theorem submit_without_screenshots_witness:
  "screenshots example_log ''before'' = None
   \<and> screenshots example_log ''after'' = None
   \<and> log_file example_fs = Inr [JStr ''earlier record'']
   \<and> write_error example_fs (LOG_FILE ''/srv/logger'') = None
   \<and> dump_error example_fs ([JStr ''earlier record''] @ [log_entry example_log None None]) = None
   \<and> log_file (snd (log_generation ''/srv/logger'' example_fs example_log)) =
       Inr [JStr ''earlier record'',
            JObj [(''timestamp'', JStr ''2024-01-15T10:30:45.123Z''),
                  (''designPrompt'', JStr ''a login form''),
                  (''figmaDOM'', JObj [(''type'', JStr ''FRAME'')]),
                  (''descriptionAPI'', JNull),
                  (''generationAPI'', JObj [(''ok'', JBool True)]),
                  (''screenshots'', JObj [(''before'', JNull), (''after'', JNull)])]]"
proof -
  have h1: "screenshots example_log ''before'' = None \<or> screenshots example_log ''before'' = Some None"
    and h2: "screenshots example_log ''after'' = None \<or> screenshots example_log ''after'' = Some None"
    by (simp_all add: example_log_def)
  have h3: "log_file example_fs = Inr [JStr ''earlier record'']"
    and h4: "write_error example_fs (LOG_FILE ''/srv/logger'') = None"
    and h5: "dump_error example_fs ([JStr ''earlier record''] @ [log_entry example_log None None]) = None"
    by (simp_all add: example_fs_fields)
  from submit_without_screenshots [OF h1 h2 h3 h4 h5] h3 h4 h5 show ?thesis
    by (auto simp: example_log_def json_of_dict_def)
qed

subsection \<open>The log file and the response after a successful submission\<close>

text \<open>
  Claim C6. Whenever the submission handler succeeds, the log file was an array of
  records before and is an array of records after; the array after is the array
  before with exactly one record, the one built from this submission, appended at
  its end, so that the earlier records are unchanged and keep their positions.
\<close>

theorem submit_appends_one_record:
  assumes "log_generation sd fs log = (Inr response, fs')"
  shows "\<exists>logs logs' before_path after_path.
           log_file fs = Inr logs
         \<and> log_file fs' = Inr logs'
         \<and> logs' = logs @ [log_entry log before_path after_path]
         \<and> length logs' = length logs + 1
         \<and> take (length logs) logs' = logs"
  using log_generation_try_success [OF log_generation_success [OF assms]] by force

theorem submit_appends_one_record_witness:
  "log_generation ''/srv/logger'' example_fs example_log =
     (Inr (JObj [(''status'', JStr ''success''),
                 (''message'', JStr ''Log saved successfully''),
                 (''logIndex'', JInt 1),
                 (''timestamp'', JStr ''2024-01-15T10:30:45.123Z'')]),
      example_fs\<lparr>log_file := Inr [JStr ''earlier record'', log_entry example_log None None]\<rparr>)
   \<and> (\<exists>logs logs' before_path after_path.
         log_file example_fs = Inr logs
       \<and> log_file (example_fs\<lparr>log_file := Inr [JStr ''earlier record'', log_entry example_log None None]\<rparr>) = Inr logs'
       \<and> logs' = logs @ [log_entry example_log before_path after_path]
       \<and> length logs' = length logs + 1
       \<and> take (length logs) logs' = logs)"
proof -
  have run: "log_generation ''/srv/logger'' example_fs example_log =
     (Inr (JObj [(''status'', JStr ''success''),
                 (''message'', JStr ''Log saved successfully''),
                 (''logIndex'', JInt 1),
                 (''timestamp'', JStr ''2024-01-15T10:30:45.123Z'')]),
      example_fs\<lparr>log_file := Inr [JStr ''earlier record'', log_entry example_log None None]\<rparr>)"
    by (simp add: log_generation_def log_generation_try_def save_screenshot_def
          example_log_def example_fs_def)
  from run submit_appends_one_record [OF run] show ?thesis by blast
qed

text \<open>
  Claim C8. Whenever the submission handler succeeds, its response has status
  \<open>success\<close>, echoes the submitted timestamp, and its \<open>logIndex\<close> is the length of the
  log after the append minus one, which is the index of the record just appended.
\<close>

theorem submit_response:
  assumes "log_generation sd fs log = (Inr response, fs')"
  shows "\<exists>logs' before_path after_path.
           log_file fs' = Inr logs'
         \<and> logs' \<noteq> []
         \<and> logs' ! (length logs' - 1) = log_entry log before_path after_path
         \<and> response = JObj [(''status'', JStr ''success''),
                             (''message'', JStr ''Log saved successfully''),
                             (''logIndex'', JInt (int (length logs') - 1)),
                             (''timestamp'', JStr (timestamp log))]"
  using log_generation_try_success [OF log_generation_success [OF assms]] by force

theorem submit_response_witness:
  "log_generation ''/srv/logger'' example_fs example_log =
     (Inr (JObj [(''status'', JStr ''success''),
                 (''message'', JStr ''Log saved successfully''),
                 (''logIndex'', JInt 1),
                 (''timestamp'', JStr ''2024-01-15T10:30:45.123Z'')]),
      example_fs\<lparr>log_file := Inr [JStr ''earlier record'', log_entry example_log None None]\<rparr>)
   \<and> (\<exists>logs' before_path after_path.
         log_file (example_fs\<lparr>log_file := Inr [JStr ''earlier record'', log_entry example_log None None]\<rparr>) = Inr logs'
       \<and> logs' \<noteq> []
       \<and> logs' ! (length logs' - 1) = log_entry example_log before_path after_path
       \<and> JObj [(''status'', JStr ''success''),
                 (''message'', JStr ''Log saved successfully''),
                 (''logIndex'', JInt 1),
                 (''timestamp'', JStr ''2024-01-15T10:30:45.123Z'')]
           = JObj [(''status'', JStr ''success''),
                             (''message'', JStr ''Log saved successfully''),
                             (''logIndex'', JInt (int (length logs') - 1)),
                             (''timestamp'', JStr (timestamp example_log))])"
proof -
  have run: "log_generation ''/srv/logger'' example_fs example_log =
     (Inr (JObj [(''status'', JStr ''success''),
                 (''message'', JStr ''Log saved successfully''),
                 (''logIndex'', JInt 1),
                 (''timestamp'', JStr ''2024-01-15T10:30:45.123Z'')]),
      example_fs\<lparr>log_file := Inr [JStr ''earlier record'', log_entry example_log None None]\<rparr>)"
    by (simp add: log_generation_def log_generation_try_def save_screenshot_def
          example_log_def example_fs_def)
  from run submit_response [OF run] show ?thesis by blast
qed

subsection \<open>The token and the place of the image files\<close>

text \<open>
  Claim C7. The token is claimed to be the sanitised timestamp cut to 19
  characters, and the image files to be written at \<open><media-dir>/<token>-before.png\<close>
  and \<open><media-dir>/<token>-after.png\<close>, for every timestamp. The token is as claimed;
  the place is not, when the token starts with a slash: for the timestamp \<open>/tmp/x\<close>
  the token is \<open>/tmp/x\<close>, \<^verbatim>\<open>os.path.join\<close> drops the media directory, and the handler
  succeeds having written the image to \<open>/tmp/x-before.png\<close>, with nothing at
  \<open><media-dir>//tmp/x-before.png\<close>.
\<close>

theorem token_with_leading_slash_escapes_media_dir:
  "timestamp_safe (timestamp absolute_timestamp_log) = ''/tmp/x''
   \<and> MEDIA_DIR ''/srv/logger'' = ''/srv/logger/../logger_data/media''
   \<and> fst (log_generation ''/srv/logger'' example_fs absolute_timestamp_log) =
        Inr (JObj [(''status'', JStr ''success''),
                   (''message'', JStr ''Log saved successfully''),
                   (''logIndex'', JInt 1),
                   (''timestamp'', JStr ''/tmp/x'')])
   \<and> files (snd (log_generation ''/srv/logger'' example_fs absolute_timestamp_log))
        ''/tmp/x-before.png'' = Some [65, 66, 67]
   \<and> files (snd (log_generation ''/srv/logger'' example_fs absolute_timestamp_log))
        (MEDIA_DIR ''/srv/logger'' @ ''/'' @ ''/tmp/x'' @ ''-before.png'') = None"
proof -
  have "timestamp_safe (timestamp absolute_timestamp_log) = ''/tmp/x''"
    by (simp add: absolute_timestamp_log_def timestamp_safe_def replace_def)
  then show ?thesis
    by (simp add: absolute_run media_dir_example example_fs_fields)
qed

subsection \<open>Raw base64 and data URI\<close>

text \<open>
  Claim C9, as stated, is about every byte payload. It fails for the empty payload:
  its raw base64 string is the empty string, for which the handler writes no file,
  while for the same payload as the data URI \<open>data:image/png;base64,\<close> the handler
  writes a file of no bytes.
\<close>

theorem raw_and_data_uri_counterexample:
  "b64encode [] = []
   \<and> screenshots (raw_submission []) ''before'' = Some (Some [])
   \<and> screenshots (data_uri_submission []) ''before'' = Some (Some ''data:image/png;base64,'')
   \<and> files (snd (log_generation ''/srv/logger'' example_fs (raw_submission [])))
        ''/srv/logger/../logger_data/media/2024-01-15_10-30-45-before.png'' = None
   \<and> files (snd (log_generation ''/srv/logger'' example_fs (data_uri_submission [])))
        ''/srv/logger/../logger_data/media/2024-01-15_10-30-45-before.png'' = Some []"
  using empty_payload_raw_run empty_payload_data_uri_run
  by (simp add: raw_submission_def data_uri_submission_def)

text \<open>
  Claim C9, amended. For every byte payload that is not empty, submitting it as
  screenshot of a slot as the raw base64 string and submitting it as the same
  base64 string after the prefix \<open>data:image/png;base64,\<close> give the same run of the
  handler, response and file system alike; in both, the block of that slot writes
  exactly the bytes of the payload to the image file of the slot (or raises what
  opening that file raises).
\<close>

theorem raw_and_data_uri_write_same_file:
  assumes "bs \<noteq> []"
  shows "log_generation sd fs (log\<lparr>screenshots := (screenshots log)(slot \<mapsto> Some (b64encode bs))\<rparr>)
         = log_generation sd fs
             (log\<lparr>screenshots :=
                    (screenshots log)(slot \<mapsto> Some (''data:image/png;base64,'' @ b64encode bs))\<rparr>)
       \<and> save_screenshot sd tok slot
            (log\<lparr>screenshots := (screenshots log)(slot \<mapsto> Some (b64encode bs))\<rparr>) fs
         = (case write_error fs (os_path_join (MEDIA_DIR sd) (tok @ ''-'' @ slot @ ''.png'')) of
              Some e \<Rightarrow> (Inl e, fs)
            | None \<Rightarrow>
                (Inr (Some (''media/'' @ tok @ ''-'' @ slot @ ''.png'')),
                 fs\<lparr>files := (files fs)
                    (os_path_join (MEDIA_DIR sd) (tok @ ''-'' @ slot @ ''.png'') \<mapsto> bs)\<rparr>))
       \<and> save_screenshot sd tok slot
            (log\<lparr>screenshots :=
                   (screenshots log)(slot \<mapsto> Some (''data:image/png;base64,'' @ b64encode bs))\<rparr>) fs
         = (case write_error fs (os_path_join (MEDIA_DIR sd) (tok @ ''-'' @ slot @ ''.png'')) of
              Some e \<Rightarrow> (Inl e, fs)
            | None \<Rightarrow>
                (Inr (Some (''media/'' @ tok @ ''-'' @ slot @ ''.png'')),
                 fs\<lparr>files := (files fs)
                    (os_path_join (MEDIA_DIR sd) (tok @ ''-'' @ slot @ ''.png'') \<mapsto> bs)\<rparr>))"
proof -
  let ?raw = "log\<lparr>screenshots := (screenshots log)(slot \<mapsto> Some (b64encode bs))\<rparr>"
  let ?uri = "log\<lparr>screenshots :=
                   (screenshots log)(slot \<mapsto> Some (''data:image/png;base64,'' @ b64encode bs))\<rparr>"
  have raw: "screenshots ?raw slot = Some (Some (b64encode bs))" by simp
  have uri: "screenshots ?uri slot = Some (Some (''data:image/png;base64,'' @ b64encode bs))"
    by simp
  have same: "save_screenshot sd t k ?raw fs' = save_screenshot sd t k ?uri fs'" for t k fs'
  proof (cases "k = slot")
    case True
    show ?thesis
      unfolding True
      by (simp only: save_screenshot_encoded [OF assms disjI1 [OF raw]]
            save_screenshot_encoded [OF assms disjI2 [OF uri]])
  next
    case False
    then show ?thesis by (simp add: save_screenshot_def)
  qed
  have "log_generation sd fs ?raw = log_generation sd fs ?uri"
    by (rule log_generation_cong) (rule same)
  with save_screenshot_encoded [OF assms disjI1 [OF raw], of sd tok fs]
       save_screenshot_encoded [OF assms disjI2 [OF uri], of sd tok fs]
  show ?thesis by simp
qed

theorem raw_and_data_uri_write_same_file_witness:
  "[65, 66, 67 :: byte] \<noteq> []
   \<and> b64encode [65, 66, 67] = ''QUJD''
   \<and> log_generation ''/srv/logger'' example_fs
        (example_log\<lparr>screenshots := (screenshots example_log)(''before'' \<mapsto> Some ''QUJD'')\<rparr>)
       = log_generation ''/srv/logger'' example_fs
        (example_log\<lparr>screenshots :=
           (screenshots example_log)(''before'' \<mapsto> Some ''data:image/png;base64,QUJD'')\<rparr>)
   \<and> save_screenshot ''/srv/logger'' ''2024-01-15_10-30-45'' ''before''
        (example_log\<lparr>screenshots :=
           (screenshots example_log)(''before'' \<mapsto> Some ''data:image/png;base64,QUJD'')\<rparr>)
        example_fs
       = (Inr (Some ''media/2024-01-15_10-30-45-before.png''),
          example_fs\<lparr>files := (files example_fs)
            (''/srv/logger/../logger_data/media/2024-01-15_10-30-45-before.png'' \<mapsto> [65, 66, 67])\<rparr>)"
proof -
  have h: "[65, 66, 67 :: byte] \<noteq> []" by simp
  have path: "os_path_join ''/srv/logger/../logger_data/media''
                (''2024-01-15_10-30-45'' @ ''-'' @ ''before'' @ ''.png'')
      = ''/srv/logger/../logger_data/media/2024-01-15_10-30-45-before.png''"
    by (simp add: os_path_join_def)
  from raw_and_data_uri_write_same_file
         [OF h, of "''/srv/logger''" example_fs example_log "''before''" "''2024-01-15_10-30-45''"]
  show ?thesis
    unfolding b64encode_ABC media_dir_example path
    by (simp add: example_fs_fields)
qed

subsection \<open>An empty screenshot string\<close>

text \<open>
  Claim C10. When a screenshot slot is present with the empty string as its value,
  the submission handler behaves exactly as on the same submission with that slot
  absent, and as on the same submission with that slot null: same response, same
  file system. No image file is written at the path of that slot, and when the
  handler succeeds the record it appends stores null for that slot.
\<close>

theorem empty_screenshot_as_absent:
  assumes "screenshots log slot = Some (Some [])"
  shows "log_generation sd fs (log\<lparr>screenshots := (screenshots log)(slot := None)\<rparr>)
           = log_generation sd fs log
       \<and> log_generation sd fs (log\<lparr>screenshots := (screenshots log)(slot \<mapsto> None)\<rparr>)
           = log_generation sd fs log
       \<and> files (snd (log_generation sd fs log))
            (os_path_join (MEDIA_DIR sd) (timestamp_safe (timestamp log) @ ''-'' @ slot @ ''.png''))
           = files fs
            (os_path_join (MEDIA_DIR sd) (timestamp_safe (timestamp log) @ ''-'' @ slot @ ''.png''))
       \<and> (\<forall>response fs'. log_generation sd fs log = (Inr response, fs') \<longrightarrow>
            (\<exists>logs before_path after_path.
                log_file fs' = Inr (logs @ [log_entry log before_path after_path])
              \<and> (slot = ''before'' \<longrightarrow> before_path = None)
              \<and> (slot = ''after'' \<longrightarrow> after_path = None)))"
proof -
  let ?tok = "timestamp_safe (timestamp log)"
  let ?p = "os_path_join (MEDIA_DIR sd) (?tok @ ''-'' @ slot @ ''.png'')"
  have absent: "log_generation sd fs (log\<lparr>screenshots := (screenshots log)(slot := None)\<rparr>)
           = log_generation sd fs log"
    by (rule log_generation_same_slot [OF assms]) simp
  have null: "log_generation sd fs (log\<lparr>screenshots := (screenshots log)(slot \<mapsto> None)\<rparr>)
           = log_generation sd fs log"
    by (rule log_generation_same_slot [OF assms]) simp
  have nofile: "files (snd (log_generation sd fs log)) ?p = files fs ?p"
    using log_generation_files [of sd fs log]
          save_screenshot_files_at_skipped_slot [OF assms, of sd ?tok]
    by auto
  have stored: "\<exists>logs before_path after_path.
                log_file fs' = Inr (logs @ [log_entry log before_path after_path])
              \<and> (slot = ''before'' \<longrightarrow> before_path = None)
              \<and> (slot = ''after'' \<longrightarrow> after_path = None)"
    if run: "log_generation sd fs log = (Inr response, fs')" for response fs'
  proof -
    from log_generation_try_success [OF log_generation_success [OF run]]
    obtain b a fs1 fs2 logs where
      b: "save_screenshot sd ?tok ''before'' log fs = (Inr b, fs1)" and
      a: "save_screenshot sd ?tok ''after'' log fs1 = (Inr a, fs2)" and
      fs': "fs' = fs2\<lparr>log_file := Inr (logs @ [log_entry log b a])\<rparr>"
      by blast
    have "slot = ''before'' \<longrightarrow> b = None"
      using b assms by (auto simp: save_screenshot_def)
    moreover have "slot = ''after'' \<longrightarrow> a = None"
      using a assms by (auto simp: save_screenshot_def)
    ultimately show ?thesis using fs' by auto
  qed
  from absent null nofile stored show ?thesis by blast
qed

theorem empty_screenshot_as_absent_witness:
  "screenshots empty_before_log ''before'' = Some (Some [])
   \<and> log_generation ''/srv/logger'' example_fs empty_before_log =
       (Inr (JObj [(''status'', JStr ''success''),
                   (''message'', JStr ''Log saved successfully''),
                   (''logIndex'', JInt 1),
                   (''timestamp'', JStr ''2024-01-15T10:30:45.123Z'')]),
        example_fs\<lparr>log_file := Inr [JStr ''earlier record'', log_entry example_log None None]\<rparr>)
   \<and> log_generation ''/srv/logger'' example_fs
        (empty_before_log\<lparr>screenshots := (screenshots empty_before_log)(''before'' := None)\<rparr>)
       = log_generation ''/srv/logger'' example_fs empty_before_log
   \<and> files (snd (log_generation ''/srv/logger'' example_fs empty_before_log))
        ''/srv/logger/../logger_data/media/2024-01-15_10-30-45-before.png'' = None"
proof -
  have h: "screenshots empty_before_log ''before'' = Some (Some [])"
    by (simp add: empty_before_log_def)
  have run: "log_generation ''/srv/logger'' example_fs empty_before_log =
       (Inr (JObj [(''status'', JStr ''success''),
                   (''message'', JStr ''Log saved successfully''),
                   (''logIndex'', JInt 1),
                   (''timestamp'', JStr ''2024-01-15T10:30:45.123Z'')]),
        example_fs\<lparr>log_file := Inr [JStr ''earlier record'', log_entry example_log None None]\<rparr>)"
    by (simp add: log_generation_def log_generation_try_def save_screenshot_def
          empty_before_log_def example_log_def example_fs_def log_entry_def)
  from h run empty_screenshot_as_absent [OF h, of "''/srv/logger''" example_fs]
  show ?thesis by (simp add: example_fs_def)
qed

end
